theory Spec2Isabelle
  imports Main "HOL-Library.AList" "HOL-Library.Multiset"
begin

section \<open>Values exchanged with the HTTP collaborator\<close>

text \<open>
  The values \<^verbatim>\<open>json.loads\<close> produces: \<^verbatim>\<open>None\<close>, booleans, integers, strings, lists and
  dictionaries. A dictionary is an association list of distinct keys, read with
  \<open>map_of\<close>. Floating
  point numbers do not occur in the fields the client reads and are not modelled.
\<close>

datatype json =
    JNull
  | JBool bool
  | JInt int
  | JStr string
  | JArr "json list"
  | JObj "(string \<times> json) list"

text \<open>Python's truth value of such a value (\<^verbatim>\<open>if v:\<close>, \<^verbatim>\<open>a or b\<close>).\<close>

fun truthy :: "json \<Rightarrow> bool" where
  "truthy JNull = False"
| "truthy (JBool b) = b"
| "truthy (JInt n) = (n \<noteq> 0)"
| "truthy (JStr s) = (s \<noteq> [])"
| "truthy (JArr xs) = (xs \<noteq> [])"
| "truthy (JObj kvs) = (kvs \<noteq> [])"

type_synonym headers = "(string \<times> string) list"

text \<open>
  A \<^verbatim>\<open>requests.Response\<close> as the client reads it: \<^verbatim>\<open>status_code\<close>, \<^verbatim>\<open>text\<close>, and the
  result of calling \<^verbatim>\<open>json()\<close>, which raises a decode error (\<open>Inl\<close>, with its message)
  on a body that is not JSON.
\<close>

record response =
  status_code :: int
  resp_text :: string
  json_result :: "string + json"

text \<open>
  The keyword arguments of one \<^verbatim>\<open>self.session.request(...)\<close> call, together with the
  headers of the session the call is made on.
\<close>

record call =
  req_method :: string
  req_url :: string
  req_params :: "(string \<times> json) list option"
  req_json :: "json option"
  req_headers :: "headers option"
  req_timeout :: int
  req_session_headers :: headers

text \<open>
  What one call of the transport does: it returns a response, whatever its status, or
  throws an \<^verbatim>\<open>Exception\<close> (connection error, timeout, ...) with a message. The
  transport has a state of its own (connections, cookies, the server's behaviour).
\<close>

datatype outcome = Returns response | Throws string

type_synonym 's transport = "call \<Rightarrow> 's \<Rightarrow> outcome \<times> 's"

text \<open>
  The two \<^verbatim>\<open>allure.attach\<close> calls after a response: the request line and its arguments,
  and the status code with the first 1000 characters of the body.
\<close>

datatype attachment = AttachRequest call | AttachResponse int string

record 's net =
  session_state :: 's
  calls :: "call list"
  attachments :: "attachment list"

text \<open>
  The exceptions of the client. Every \<^verbatim>\<open>AssertionError\<close> carries the data its message is
  formatted from:
  \<^item> \<open>RetriesExhausted retry e\<close>: line 99, the message names \<^verbatim>\<open>retry\<close> and the cause \<^verbatim>\<open>e\<close>;
  \<^item> \<open>NotPerformed\<close>: line 100, the fixed message after the loop;
  \<^item> \<open>StatusNot200 code body\<close>: line 111, the message names the status code and \<^verbatim>\<open>response.text\<close>.
\<close>

datatype assertion =
    RetriesExhausted int string
  | NotPerformed
  | StatusNot200 int string

datatype error =
    AssertionError assertion
  | JSONDecodeError string
  | TypeError string
  | AttributeError string

subsection \<open>Config\<close>

definition Config_SUGGEST_API_URL :: string where
  "Config_SUGGEST_API_URL = ''https://autocomplete.travelpayouts.com/places2''"



definition Config_TIMEOUT :: int where
  "Config_TIMEOUT = 30"

definition Config_RETRY_COUNT :: int where
  "Config_RETRY_COUNT = 3"

subsection \<open>BaseApiClient\<close>

record client =
  base_url :: string
  token :: "string option"
  session_headers :: headers

text \<open>
  \<^verbatim>\<open>__init__\<close>: a fresh \<^verbatim>\<open>Session()\<close> starts with the HTTP library's default headers
  \<open>dflt\<close>; \<^verbatim>\<open>if token:\<close> is true for a token that is neither \<^verbatim>\<open>None\<close> nor empty, and
  then \<^verbatim>\<open>session.headers.update\<close> stores the \<^verbatim>\<open>Authorization\<close> entry.
\<close>

definition BaseApiClient_init :: "headers \<Rightarrow> string \<Rightarrow> string option \<Rightarrow> client" where
  "BaseApiClient_init dflt base tok =
     \<lparr>base_url = base, token = tok,
      session_headers =
        (case tok of
           None \<Rightarrow> dflt
         | Some t \<Rightarrow>
             if t \<noteq> [] then AList.update ''Authorization'' (''Token '' @ t) dflt else dflt)\<rparr>"

definition SuggestApiClient_init :: "headers \<Rightarrow> client" where
  "SuggestApiClient_init dflt = BaseApiClient_init dflt Config_SUGGEST_API_URL None"


text \<open>\<^verbatim>\<open>s.startswith(p)\<close>.\<close>

definition startswith :: "string \<Rightarrow> string \<Rightarrow> bool" where
  "startswith s p = (take (length p) s = p)"

text \<open>
  The body of \<^verbatim>\<open>for attempt in range(retry)\<close>, over the attempts still to run. A response
  is attached to the report and returned; an exception ends the call on the attempt
  \<^verbatim>\<open>retry - 1\<close> and is dropped on any other attempt. The empty list is the fall-through
  to line 100.
\<close>

fun request_loop ::
  "'s transport \<Rightarrow> call \<Rightarrow> int \<Rightarrow> nat list \<Rightarrow> 's net \<Rightarrow> (error + response) \<times> 's net" where
  "request_loop tr c retry [] w = (Inl (AssertionError NotPerformed), w)"
| "request_loop tr c retry (attempt # rest) w =
     (case tr c (session_state w) of
        (Returns r, s') \<Rightarrow>
          (Inr r,
           w\<lparr>session_state := s', calls := calls w @ [c],
             attachments := attachments w @
               [AttachRequest c, AttachResponse (status_code r) (take 1000 (resp_text r))]\<rparr>)
      | (Throws e, s') \<Rightarrow>
          (let w' = w\<lparr>session_state := s', calls := calls w @ [c]\<rparr> in
           if int attempt = retry - 1
           then (Inl (AssertionError (RetriesExhausted retry e)), w')
           else request_loop tr c retry rest w'))"

text \<open>\<^verbatim>\<open>full_url\<close> of line 75.\<close>

definition full_url :: "client \<Rightarrow> string \<Rightarrow> string" where
  "full_url self url = (if startswith url ''http'' then url else base_url self @ url)"

text \<open>The call every attempt of one \<^verbatim>\<open>_request\<close> makes.\<close>

definition the_call ::
  "client \<Rightarrow> string \<Rightarrow> string \<Rightarrow> (string \<times> json) list option \<Rightarrow> json option \<Rightarrow>
   headers option \<Rightarrow> int \<Rightarrow> call" where
  "the_call self method url params js hdrs tmo =
     \<lparr>req_method = method, req_url = full_url self url, req_params = params,
      req_json = js, req_headers = hdrs, req_timeout = tmo,
      req_session_headers = session_headers self\<rparr>"

text \<open>
  \<^verbatim>\<open>BaseApiClient._request\<close>. \<^verbatim>\<open>range(retry)\<close> is \<open>[0..<nat retry]\<close>: empty for a
  \<^verbatim>\<open>retry\<close> of zero or less.
\<close>

definition request ::
  "'s transport \<Rightarrow> client \<Rightarrow> string \<Rightarrow> string \<Rightarrow> (string \<times> json) list option \<Rightarrow>
   json option \<Rightarrow> headers option \<Rightarrow> int \<Rightarrow> int \<Rightarrow> 's net \<Rightarrow> (error + response) \<times> 's net" where
  "request tr self method url params js hdrs tmo retry w =
     request_loop tr (the_call self method url params js hdrs tmo) retry [0..<nat retry] w"

text \<open>\<^verbatim>\<open>BaseApiClient.wait_for_ok\<close>: the assertion on the status code, then \<^verbatim>\<open>response.json()\<close>.\<close>

definition wait_for_ok :: "response \<Rightarrow> error + json" where
  "wait_for_ok r =
     (if status_code r = 200
      then (case json_result r of Inl msg \<Rightarrow> Inl (JSONDecodeError msg) | Inr j \<Rightarrow> Inr j)
      else Inl (AssertionError (StatusNot200 (status_code r) (resp_text r))))"





subsection \<open>SuggestApiClient.extract_city_names\<close>

text \<open>
  \<^verbatim>\<open>item.get(key)\<close>: defined on a dictionary only, \<^verbatim>\<open>None\<close> for a missing key; any other
  value has no attribute \<^verbatim>\<open>get\<close>.
\<close>

fun dict_get :: "json \<Rightarrow> string \<Rightarrow> error + json" where
  "dict_get (JObj kvs) k = Inr (case map_of kvs k of None \<Rightarrow> JNull | Some v \<Rightarrow> v)"
| "dict_get _ k = Inl (AttributeError ''get'')"

text \<open>\<^verbatim>\<open>for item in response_json\<close>: the items of a list, the keys of a dictionary, the
  characters of a string; anything else is not iterable.\<close>

fun iterate :: "json \<Rightarrow> error + json list" where
  "iterate (JArr items) = Inr items"
| "iterate (JObj kvs) = Inr (map (\<lambda>kv. JStr (fst kv)) kvs)"
| "iterate (JStr s) = Inr (map (\<lambda>ch. JStr [ch]) s)"
| "iterate _ = Inl (TypeError ''object is not iterable'')"

text \<open>A set element must be hashable: lists and dictionaries are not.\<close>

fun hashable :: "json \<Rightarrow> bool" where
  "hashable (JArr xs) = False"
| "hashable (JObj kvs) = False"
| "hashable _ = True"

text \<open>Equality of set elements: \<^verbatim>\<open>True == 1\<close> and \<^verbatim>\<open>False == 0\<close> in Python.\<close>

fun as_key :: "json \<Rightarrow> json" where
  "as_key (JBool b) = JInt (if b then 1 else 0)"
| "as_key v = v"

definition py_eq :: "json \<Rightarrow> json \<Rightarrow> bool" where
  "py_eq a b = (as_key a = as_key b)"

text \<open>\<^verbatim>\<open>cities.add(x)\<close> on the elements in the order they were inserted: an element equal to
  one already present changes nothing.\<close>

definition set_add :: "json \<Rightarrow> json list \<Rightarrow> json list" where
  "set_add x xs = (if \<exists>y \<in> set xs. py_eq x y then xs else xs @ [x])"

text \<open>\<^verbatim>\<open>item.get("name") or item.get("city_name")\<close>.\<close>

definition chosen_name :: "json \<Rightarrow> error + json" where
  "chosen_name item =
     (case dict_get item ''name'' of
        Inl e \<Rightarrow> Inl e
      | Inr n \<Rightarrow> if truthy n then Inr n else dict_get item ''city_name'')"

text \<open>The loop of lines 183 to 187 over the items still to visit.\<close>

fun extract_loop :: "json list \<Rightarrow> json list \<Rightarrow> error + json list" where
  "extract_loop [] cities = Inr cities"
| "extract_loop (item # rest) cities =
     (case dict_get item ''type'' of
        Inl e \<Rightarrow> Inl e
      | Inr ty \<Rightarrow>
          if ty = JStr ''city''
          then (case chosen_name item of
                  Inl e \<Rightarrow> Inl e
                | Inr city_name \<Rightarrow>
                    if truthy city_name
                    then (if hashable city_name
                          then extract_loop rest (set_add city_name cities)
                          else Inl (TypeError ''unhashable type''))
                    else extract_loop rest cities)
          else extract_loop rest cities)"

text \<open>
  \<^verbatim>\<open>extract_city_names\<close>. \<^verbatim>\<open>list(cities)\<close> enumerates the set in an order Python does not
  fix; the model returns the elements in the order of insertion, and what is proved
  about the result is proved for every rearrangement of it.
\<close>

definition extract_city_names :: "json \<Rightarrow> error + json list" where
  "extract_city_names response_json =
     (case iterate response_json of
        Inl e \<Rightarrow> Inl e
      | Inr items \<Rightarrow> extract_loop items [])"

text \<open>An item the loop passes without raising: a dictionary, and when its type is
  \<^verbatim>\<open>city\<close> and the name selected is truthy, that name is hashable.\<close>

definition place_item :: "json \<Rightarrow> bool" where
  "place_item item =
     (case dict_get item ''type'' of
        Inl e \<Rightarrow> False
      | Inr ty \<Rightarrow>
          ty = JStr ''city'' \<longrightarrow>
          (case chosen_name item of Inl e \<Rightarrow> False | Inr n \<Rightarrow> truthy n \<longrightarrow> hashable n))"

text \<open>The item is a city and \<open>x\<close> is the truthy name the loop selects from it.\<close>

definition city_with :: "json \<Rightarrow> json \<Rightarrow> bool" where
  "city_with item x =
     (dict_get item ''type'' = Inr (JStr ''city'') \<and> chosen_name item = Inr x \<and> truthy x)"

section \<open>The browser collaborator and BasePage\<close>

type_synonym locator = "string \<times> string"

text \<open>
  Modelled from the spec: the Wait Engine's polling (\<^verbatim>\<open>WebDriverWait.until\<close>), the
  readiness conditions (\<^verbatim>\<open>expected_conditions\<close>) and the UI surface belong to the
  browser-automation library and are not under the sources. They are modelled here as
  the spec describes the Wait Engine and its UI collaborator: a condition is evaluated
  again and again, a not-found error of the surface is absorbed by the polling, the
  first true value is returned, and a timeout is raised once the deadline has passed.
  Time is the monotonic clock in milliseconds.

  What a polled condition can return: data, a \<^verbatim>\<open>WebElement\<close> (by its id) or a list of
  them. A \<^verbatim>\<open>WebElement\<close> is always true; a list is true when it is not empty.
\<close>

datatype pyval = Data json | Element nat | Elements "nat list"

fun truthy_val :: "pyval \<Rightarrow> bool" where
  "truthy_val (Data j) = truthy j"
| "truthy_val (Element i) = True"
| "truthy_val (Elements es) = (es \<noteq> [])"

datatype exn = NoSuchElementException | TimeoutException | OtherException string

datatype evaluated = Value pyval | Raises exn

text \<open>
  A condition \<^verbatim>\<open>method(driver)\<close>: evaluated at a reading of the monotonic clock (in
  milliseconds), it returns or raises, and takes some time to do so.
\<close>

type_synonym probe = "int \<Rightarrow> evaluated \<times> nat"

datatype command = Click nat | Clear nat | SendKeys nat string | GetText nat

text \<open>
  The browser as the driver shows it at each moment: which element a locator finds
  (or the exception \<^verbatim>\<open>driver.find_element\<close> raises), whether an element is displayed
  and enabled, its text, the exception (if any) with which it answers an element
  command, and the time a driver call takes.
\<close>

record browser =
  locate :: "int \<Rightarrow> locator \<Rightarrow> exn + nat"
  is_displayed :: "int \<Rightarrow> nat \<Rightarrow> bool"
  is_enabled :: "int \<Rightarrow> nat \<Rightarrow> bool"
  text_at :: "int \<Rightarrow> nat \<Rightarrow> string"
  refuses :: "int \<Rightarrow> command \<Rightarrow> exn option"
  cost :: "int \<Rightarrow> nat"

text \<open>The clock, every evaluation a wait has made, and every element command sent to
  the browser, each with the time it was made at.\<close>

record ui =
  clock :: int
  polled :: "(int \<times> evaluated) list"
  issued :: "(int \<times> command) list"

text \<open>Modelled from the spec: \<^verbatim>\<open>EC.presence_of_element_located(locator)\<close>, the element
  matching the locator, or the not-found error of the surface.\<close>

definition presence_of_element_located :: "browser \<Rightarrow> locator \<Rightarrow> probe" where
  "presence_of_element_located br loc t =
     (case locate br t loc of Inl e \<Rightarrow> Raises e | Inr i \<Rightarrow> Value (Element i), cost br t)"


text \<open>Modelled from the spec: the polling interval, the library's default of half a
  second (\<^verbatim>\<open>BasePage\<close> never sets another).\<close>

definition POLL_FREQUENCY :: int where
  "POLL_FREQUENCY = 500"

text \<open>
  Modelled from the spec: one evaluation inside \<^verbatim>\<open>WebDriverWait.until\<close>: a true value is returned, a false one
  and the ignored \<^verbatim>\<open>NoSuchElementException\<close> let the loop go on (\<open>None\<close>), any other
  exception leaves the loop.
\<close>

fun settle :: "evaluated \<Rightarrow> (exn + pyval) option" where
  "settle (Value v) = (if truthy_val v then Some (Inr v) else None)"
| "settle (Raises e) = (if e = NoSuchElementException then None else Some (Inl e))"

text \<open>
  Modelled from the spec: the loop of \<^verbatim>\<open>WebDriverWait.until\<close>: evaluate, sleep for the polling interval, and
  raise \<^verbatim>\<open>TimeoutException\<close> once the clock has passed \<open>end_time\<close>.
\<close>

function until_loop :: "probe \<Rightarrow> int \<Rightarrow> ui \<Rightarrow> (exn + pyval) \<times> ui" where
  "until_loop method end_time w =
     (let ev = fst (method (clock w));
          w1 = w\<lparr>clock := clock w + int (snd (method (clock w))),
                 polled := polled w @ [(clock w, ev)]\<rparr>
      in case settle ev of
           Some r \<Rightarrow> (r, w1)
         | None \<Rightarrow>
             (let w2 = w1\<lparr>clock := clock w1 + POLL_FREQUENCY\<rparr>
              in if end_time < clock w2 then (Inl TimeoutException, w2)
                 else until_loop method end_time w2))"
  by pat_completeness auto
termination
  by (relation "measure (\<lambda>(method, end_time, w). nat (end_time - clock w))")
     (auto simp: POLL_FREQUENCY_def)

text \<open>Modelled from the spec: \<^verbatim>\<open>WebDriverWait(driver, timeout).until(method)\<close>, with
  \<^verbatim>\<open>timeout\<close> in seconds; the deadline is fixed when the wait starts.\<close>

definition until :: "probe \<Rightarrow> int \<Rightarrow> ui \<Rightarrow> (exn + pyval) \<times> ui" where
  "until method timeout w = until_loop method (clock w + timeout * 1000) w"



text \<open>\<^verbatim>\<open>BasePage\<close>: \<^verbatim>\<open>self.wait\<close> is built once, with the configured explicit wait.\<close>

record page =
  explicit_wait :: int






text \<open>\<^verbatim>\<open>is_element_present\<close>: the only handler is \<^verbatim>\<open>except TimeoutException\<close>.\<close>

definition is_element_present ::
  "browser \<Rightarrow> page \<Rightarrow> locator \<Rightarrow> int \<Rightarrow> ui \<Rightarrow> (exn + bool) \<times> ui" where
  "is_element_present br self loc timeout w =
     (case until (presence_of_element_located br loc) timeout w of
        (Inr v, w1) \<Rightarrow> (Inr True, w1)
      | (Inl e, w1) \<Rightarrow> if e = TimeoutException then (Inr False, w1) else (Inl e, w1))"

text \<open>\<^verbatim>\<open>wait_for_result\<close>: the condition, called without the driver.\<close>

definition wait_for_result :: "page \<Rightarrow> probe \<Rightarrow> int \<Rightarrow> ui \<Rightarrow> (exn + pyval) \<times> ui" where
  "wait_for_result self condition timeout w = until condition timeout w"

text \<open>An evaluation after which the loop goes on polling.\<close>

definition pending :: "evaluated \<Rightarrow> bool" where
  "pending ev = (settle ev = None)"

section \<open>Collaborators to run the model on\<close>

text \<open>A transport that plays a script of outcomes, one per call, and refuses the
  connection once the script is over; one that never answers.\<close>

definition scripted :: "outcome list transport" where
  "scripted c s = (case s of [] \<Rightarrow> (Throws ''connection refused'', []) | x # rest \<Rightarrow> (x, rest))"

definition unreachable :: "unit transport" where
  "unreachable c s = (Throws ''timed out'', s)"

definition net0 :: "'s \<Rightarrow> 's net" where
  "net0 s = \<lparr>session_state = s, calls = [], attachments = []\<rparr>"


definition default_headers :: headers where
  "default_headers = [(''Accept'', ''*/*''), (''Connection'', ''keep-alive'')]"


definition ok_a1 :: response where
  "ok_a1 = \<lparr>status_code = 200, resp_text = ''{\"a\":1}'', json_result = Inr (JObj [(''a'', JInt 1)])\<rparr>"

definition not_found :: response where
  "not_found = \<lparr>status_code = 404, resp_text = ''Not Found'', json_result = Inl ''Expecting value''\<rparr>"

definition ok_html :: response where
  "ok_html = \<lparr>status_code = 200, resp_text = ''<html></html>'', json_result = Inl ''Expecting value''\<rparr>"

text \<open>A page on which the element \<open>7\<close> appears under every locator two seconds after the
  start, displayed and enabled; a browser whose window has been closed, so that every
  lookup fails with an error that is not a not-found error; the state a test starts in.\<close>

definition late_page :: browser where
  "late_page =
     \<lparr>locate = (\<lambda>t loc. if t < 2000 then Inl NoSuchElementException else Inr 7),
      is_displayed = (\<lambda>t i. True), is_enabled = (\<lambda>t i. True),
      text_at = (\<lambda>t i. ''Sochi''), refuses = (\<lambda>t c. None), cost = (\<lambda>t. 0)\<rparr>"

definition closed_page :: browser where
  "closed_page =
     \<lparr>locate = (\<lambda>t loc. Inl (OtherException ''NoSuchWindowException'')),
      is_displayed = (\<lambda>t i. False), is_enabled = (\<lambda>t i. False),
      text_at = (\<lambda>t i. []), refuses = (\<lambda>t c. None), cost = (\<lambda>t. 0)\<rparr>"

definition ui0 :: ui where
  "ui0 = \<lparr>clock = 0, polled = [], issued = []\<rparr>"

definition page5 :: page where
  "page5 = \<lparr>explicit_wait = 5\<rparr>"


definition submit :: locator where
  "submit = (''css selector'', ''[data-test-id=form-submit]'')"

text \<open>A condition that returns an empty list until two seconds have passed and a
  non-empty string from then on; one that always returns \<^verbatim>\<open>None\<close>.\<close>

definition becomes_true :: probe where
  "becomes_true t = (if t < 2000 then Value (Data (JArr [])) else Value (Data (JStr ''ready'')), 0)"

definition never_true :: probe where
  "never_true t = (Value (Data JNull), 0)"

text \<open>A response of the places endpoint for the term \<^verbatim>\<open>Sochi\<close>.\<close>

definition sochi_places :: "json list" where
  "sochi_places =
     [JObj [(''type'', JStr ''city''), (''code'', JStr ''AER''), (''name'', JStr ''Sochi'')],
      JObj [(''type'', JStr ''airport''), (''code'', JStr ''AER''),
            (''name'', JStr ''Sochi International'')],
      JObj [(''type'', JStr ''city''), (''name'', JStr []), (''city_name'', JStr ''Adler'')],
      JObj [(''type'', JStr ''city''), (''name'', JStr ''Sochi'')],
      JObj [(''type'', JStr ''city''), (''code'', JStr ''XXX'')]]"

section \<open>The retry loop\<close>













text \<open>
  C9. With a retry budget of zero or less, \<^verbatim>\<open>_request\<close> raises the fall-through
  \<^verbatim>\<open>AssertionError\<close> of line 100 and the transport is never called: no call is recorded,
  nothing is attached, and the session is as it was.
\<close>

theorem request_no_budget:
  "retry \<le> 0 \<Longrightarrow>
     request tr self method url params js hdrs tmo retry w = (Inl (AssertionError NotPerformed), w)"
  by (simp add: request_def)

theorem request_no_budget_witness:
  "request unreachable (SuggestApiClient_init default_headers) ''GET'' [] None None None
          Config_TIMEOUT 0 (net0 ()) = (Inl (AssertionError NotPerformed), net0 ()) \<and>
   request scripted (SuggestApiClient_init default_headers) ''GET'' [] None None None
          Config_TIMEOUT (- 1) (net0 [Returns ok_a1]) =
     (Inl (AssertionError NotPerformed), net0 [Returns ok_a1])"
  using request_no_budget[of 0 unreachable "SuggestApiClient_init default_headers" "''GET''" "[]"
      None None None Config_TIMEOUT "net0 ()"]
    request_no_budget[of "- 1" scripted "SuggestApiClient_init default_headers" "''GET''" "[]"
      None None None Config_TIMEOUT "net0 [Returns ok_a1]"]
  by simp









section \<open>Checking the status\<close>

text \<open>
  C3, as amended. \<^verbatim>\<open>wait_for_ok\<close> returns the decoded body exactly when the status code is
  200 and the body decodes as JSON; on a status of 200 with a body that does not
  decode, the decoder's error is raised; on any other status the \<^verbatim>\<open>AssertionError\<close>
  raised carries the status code and the body text.
\<close>

theorem wait_for_ok_cases:
  "(status_code r = 200 \<and> json_result r = Inr j \<longrightarrow> wait_for_ok r = Inr j) \<and>
   (status_code r = 200 \<and> json_result r = Inl msg \<longrightarrow> wait_for_ok r = Inl (JSONDecodeError msg)) \<and>
   (status_code r \<noteq> 200 \<longrightarrow>
      wait_for_ok r = Inl (AssertionError (StatusNot200 (status_code r) (resp_text r)))) \<and>
   ((\<exists>v. wait_for_ok r = Inr v) \<longleftrightarrow> (status_code r = 200 \<and> (\<exists>v. json_result r = Inr v)))"
  by (auto simp: wait_for_ok_def split: sum.splits)

theorem wait_for_ok_cases_witness:
  "wait_for_ok ok_a1 = Inr (JObj [(''a'', JInt 1)]) \<and>
   wait_for_ok ok_html = Inl (JSONDecodeError ''Expecting value'') \<and>
   wait_for_ok not_found = Inl (AssertionError (StatusNot200 404 ''Not Found''))"
  using wait_for_ok_cases[of ok_a1 "JObj [(''a'', JInt 1)]" "[]"]
    wait_for_ok_cases[of ok_html JNull "''Expecting value''"]
    wait_for_ok_cases[of not_found JNull "[]"]
  by (simp add: ok_a1_def ok_html_def not_found_def)

text \<open>A 200 response with an HTML body: the status is 200 and nothing is returned.\<close>

theorem ok_without_json_counterexample:
  "status_code ok_html = 200 \<and> (\<forall>v. wait_for_ok ok_html \<noteq> Inr v)"
  by (simp add: wait_for_ok_def ok_html_def)

section \<open>Extracting city names\<close>

lemma set_add_distinct:
  "distinct (map as_key xs) \<Longrightarrow> distinct (map as_key (set_add x xs))"
  by (auto simp: set_add_def py_eq_def)

lemma set_add_set: "set (set_add x xs) \<subseteq> insert x (set xs)" "set xs \<subseteq> set (set_add x xs)"
  by (auto simp: set_add_def)

lemma set_add_has: "\<exists>y \<in> set (set_add x xs). py_eq x y"
  by (auto simp: set_add_def py_eq_def)

lemma extract_loop_inv:
  "extract_loop items acc = Inr xs \<Longrightarrow> distinct (map as_key acc) \<Longrightarrow>
     distinct (map as_key xs) \<and> set acc \<subseteq> set xs \<and>
     (\<forall>x \<in> set xs. x \<in> set acc \<or> (\<exists>item \<in> set items. city_with item x)) \<and>
     (\<forall>item \<in> set items. \<forall>n. city_with item n \<longrightarrow> (\<exists>x \<in> set xs. py_eq n x))"
proof (induction items arbitrary: acc)
  case Nil
  then show ?case by simp
next
  case (Cons item rest)
  show ?case
  proof (cases "\<exists>n. city_with item n")
    case True
    then obtain n where n: "city_with item n" by blast
    then have h: "hashable n" and run: "extract_loop rest (set_add n acc) = Inr xs"
      using Cons.prems(1) by (auto simp: city_with_def split: if_splits)
    have IH: "distinct (map as_key xs)" "set (set_add n acc) \<subseteq> set xs"
      "\<forall>x \<in> set xs. x \<in> set (set_add n acc) \<or> (\<exists>item \<in> set rest. city_with item x)"
      "\<forall>item \<in> set rest. \<forall>m. city_with item m \<longrightarrow> (\<exists>x \<in> set xs. py_eq m x)"
      using Cons.IH[OF run set_add_distinct[OF Cons.prems(2)]] by blast+
    have uniq: "m = n" if "city_with item m" for m
      using that n by (simp add: city_with_def)
    have "\<exists>x \<in> set xs. py_eq n x" using set_add_has[of n acc] IH(2) by blast
    moreover have "set acc \<subseteq> set xs" using set_add_set(2)[of acc n] IH(2) by blast
    moreover have "\<forall>x \<in> set xs. x \<in> set acc \<or> (\<exists>it \<in> set (item # rest). city_with it x)"
    proof
      fix x assume "x \<in> set xs"
      then consider "x \<in> set (set_add n acc)" | "\<exists>it \<in> set rest. city_with it x"
        using IH(3) by blast
      then show "x \<in> set acc \<or> (\<exists>it \<in> set (item # rest). city_with it x)"
      proof cases
        case 1
        then have "x = n \<or> x \<in> set acc" using set_add_set(1)[of n acc] by blast
        then show ?thesis using n by auto
      next
        case 2
        then show ?thesis by auto
      qed
    qed
    ultimately show ?thesis using IH(1,4) uniq by auto
  next
    case False
    then have run: "extract_loop rest acc = Inr xs"
      using Cons.prems(1) by (auto simp: city_with_def split: sum.splits if_splits)
    from Cons.IH[OF run Cons.prems(2)] False show ?thesis by auto
  qed
qed

lemma extract_loop_returns:
  "(\<exists>xs. extract_loop items acc = Inr xs) \<longleftrightarrow> (\<forall>item \<in> set items. place_item item)"
proof (induction items arbitrary: acc)
  case Nil
  then show ?case by simp
next
  case (Cons item rest)
  show ?case
  proof (cases "dict_get item ''type''")
    case (Inl e)
    then show ?thesis by (simp add: place_item_def)
  next
    case ty: (Inr ty)
    show ?thesis
    proof (cases "ty = JStr ''city''")
      case False
      then show ?thesis using ty Cons.IH[of acc] by (simp add: place_item_def)
    next
      case True
      show ?thesis
      proof (cases "chosen_name item")
        case (Inl e)
        then show ?thesis using ty True by (simp add: place_item_def)
      next
        case (Inr n)
        then show ?thesis
          using ty True Cons.IH[of acc] Cons.IH[of "set_add n acc"]
          by (simp add: place_item_def)
      qed
    qed
  qed
qed

text \<open>
  C10, as amended. On a response that is a list, \<^verbatim>\<open>extract_city_names\<close> returns exactly
  when every item is a dictionary whose selected name, if the item is a city and the
  name is truthy, is hashable. The list returned, in whatever order the set is
  enumerated, has no duplicates (also up to Python's equality of set elements); every
  element is the name selected from some item of type \<^verbatim>\<open>city\<close>: its \<^verbatim>\<open>name\<close> when that is
  truthy and its \<^verbatim>\<open>city_name\<close> otherwise, and truthy itself; and every such name
  is represented in the list. Items of another type, and cities with no truthy name,
  add nothing.
\<close>

theorem extract_city_names_result:
  "((\<exists>xs. extract_city_names (JArr items) = Inr xs) \<longleftrightarrow>
      (\<forall>item \<in> set items. place_item item)) \<and>
   (extract_city_names (JArr items) = Inr xs \<and> mset ys = mset xs \<longrightarrow>
      distinct ys \<and> distinct (map as_key ys) \<and>
      (\<forall>x \<in> set ys. \<exists>item \<in> set items.
          dict_get item ''type'' = Inr (JStr ''city'') \<and> chosen_name item = Inr x \<and> truthy x) \<and>
      (\<forall>item \<in> set items. \<forall>n.
          dict_get item ''type'' = Inr (JStr ''city'') \<and> chosen_name item = Inr n \<and> truthy n \<longrightarrow>
          (\<exists>x \<in> set ys. py_eq n x)))"
proof (intro conjI impI)
  show "(\<exists>xs. extract_city_names (JArr items) = Inr xs) \<longleftrightarrow>
      (\<forall>item \<in> set items. place_item item)"
    using extract_loop_returns[of items "[]"] by (simp add: extract_city_names_def)
next
  assume a: "extract_city_names (JArr items) = Inr xs \<and> mset ys = mset xs"
  then have run: "extract_loop items [] = Inr xs" by (simp add: extract_city_names_def)
  have inv: "distinct (map as_key xs)"
    "\<forall>x \<in> set xs. \<exists>item \<in> set items. city_with item x"
    "\<forall>item \<in> set items. \<forall>n. city_with item n \<longrightarrow> (\<exists>x \<in> set xs. py_eq n x)"
    using extract_loop_inv[OF run] by auto
  have s: "set ys = set xs" using a by (metis mset_eq_setD)
  have "mset (map as_key ys) = mset (map as_key xs)" using a by simp
  then have d: "distinct (map as_key ys)" using inv(1) by (metis mset_eq_imp_distinct_iff)
  show "distinct ys" using d by (simp add: distinct_map)
  show "distinct (map as_key ys)" by (rule d)
  show "\<forall>x \<in> set ys. \<exists>item \<in> set items.
          dict_get item ''type'' = Inr (JStr ''city'') \<and> chosen_name item = Inr x \<and> truthy x"
    using inv(2) s by (simp add: city_with_def)
  show "\<forall>item \<in> set items. \<forall>n.
          dict_get item ''type'' = Inr (JStr ''city'') \<and> chosen_name item = Inr n \<and> truthy n \<longrightarrow>
          (\<exists>x \<in> set ys. py_eq n x)"
    using inv(3) s by (simp add: city_with_def)
qed

text \<open>The selected name of a dictionary, spelled out.\<close>

lemma chosen_name_dict:
  "chosen_name (JObj kvs) =
     Inr (if truthy (case map_of kvs ''name'' of None \<Rightarrow> JNull | Some v \<Rightarrow> v)
          then (case map_of kvs ''name'' of None \<Rightarrow> JNull | Some v \<Rightarrow> v)
          else (case map_of kvs ''city_name'' of None \<Rightarrow> JNull | Some v \<Rightarrow> v))"
  by (simp add: chosen_name_def)

lemma sochi_run: "extract_city_names (JArr sochi_places) = Inr [JStr ''Sochi'', JStr ''Adler'']"
  by (simp add: extract_city_names_def sochi_places_def chosen_name_def set_add_def py_eq_def)

lemma sochi_items: "\<forall>item \<in> set sochi_places. place_item item"
  by (simp add: sochi_places_def place_item_def chosen_name_def)

theorem extract_city_names_result_witness:
  "extract_city_names (JArr sochi_places) = Inr [JStr ''Sochi'', JStr ''Adler''] \<and>
   distinct [JStr ''Adler'', JStr ''Sochi''] \<and>
   mset [JStr ''Adler'', JStr ''Sochi''] = mset [JStr ''Sochi'', JStr ''Adler'']"
  using extract_city_names_result[of sochi_places "[JStr ''Sochi'', JStr ''Adler'']"
      "[JStr ''Adler'', JStr ''Sochi'']"] sochi_run sochi_items
  by simp

text \<open>
  A city whose name is a list cannot be put into the set, and a response that is a
  dictionary is iterated by its keys, which have no \<^verbatim>\<open>get\<close>: nothing is returned.
\<close>

theorem unhashable_name_counterexample:
  "extract_city_names (JArr [JObj [(''type'', JStr ''city''), (''name'', JArr [JStr ''Sochi''])]]) =
     Inl (TypeError ''unhashable type'') \<and>
   extract_city_names (JObj [(''error'', JStr ''bad term'')]) = Inl (AttributeError ''get'')"
  by (simp add: extract_city_names_def chosen_name_def)

section \<open>Waiting before acting\<close>

declare until_loop.simps [simp del]

lemma until_loop_trace:
  "until_loop cond end_time w = (r, w') \<Longrightarrow>
   \<exists>obs t ev. polled w' = polled w @ obs @ [(t, ev)] \<and> issued w' = issued w \<and>
     (\<forall>p \<in> set (obs @ [(t, ev)]). snd p = fst (cond (fst p)) \<and> clock w \<le> fst p \<and> fst p \<le> clock w') \<and>
     (\<forall>p \<in> set obs. pending (snd p)) \<and>
     (case settle ev of
        Some x \<Rightarrow> r = x \<and> clock w' = t + int (snd (cond t))
      | None \<Rightarrow> r = Inl TimeoutException \<and> end_time < clock w')"
proof (induction cond end_time w arbitrary: r w' rule: until_loop.induct)
  case (1 cond end_time w)
  let ?ev = "fst (cond (clock w))"
  let ?w1 = "w\<lparr>clock := clock w + int (snd (cond (clock w))), polled := polled w @ [(clock w, ?ev)]\<rparr>"
  let ?w2 = "?w1\<lparr>clock := clock ?w1 + POLL_FREQUENCY\<rparr>"
  show ?case
  proof (cases "settle ?ev")
    case (Some x)
    then have "r = x" "w' = ?w1"
      using "1.prems" by (simp_all add: until_loop.simps[of cond end_time w] Let_def)
    then show ?thesis using Some
      by (intro exI[of _ "[]"] exI[of _ "clock w"] exI[of _ ?ev]) simp
  next
    case None
    show ?thesis
    proof (cases "end_time < clock ?w2")
      case True
      then have "r = Inl TimeoutException" "w' = ?w2"
        using "1.prems" None by (simp_all add: until_loop.simps[of cond end_time w] Let_def)
      then show ?thesis using None True
        by (intro exI[of _ "[]"] exI[of _ "clock w"] exI[of _ ?ev]) (simp add: POLL_FREQUENCY_def)
    next
      case False
      then have run: "until_loop cond end_time ?w2 = (r, w')"
        using "1.prems" None by (simp add: until_loop.simps[of cond end_time w] Let_def)
      from "1.IH"[OF refl refl None refl False run]
      obtain obs t ev where IH:
        "polled w' = polled ?w2 @ obs @ [(t, ev)]" "issued w' = issued ?w2"
        "\<forall>p \<in> set (obs @ [(t, ev)]). snd p = fst (cond (fst p)) \<and> clock ?w2 \<le> fst p \<and> fst p \<le> clock w'"
        "\<forall>p \<in> set obs. pending (snd p)"
        "case settle ev of
           Some x \<Rightarrow> r = x \<and> clock w' = t + int (snd (cond t))
         | None \<Rightarrow> r = Inl TimeoutException \<and> end_time < clock w'"
        by blast
      have le: "clock w \<le> clock ?w2" by (simp add: POLL_FREQUENCY_def)
      have "clock ?w2 \<le> clock w'" using IH(3) by auto
      then have le': "clock w \<le> clock w'" using le by linarith
      show ?thesis
        using IH None le le'
        by (intro exI[of _ "(clock w, ?ev) # obs"] exI[of _ t] exI[of _ ev])
           (auto simp: pending_def)
    qed
  qed
qed


lemma pending_iff:
  "pending ev \<longleftrightarrow>
     (case ev of Value v \<Rightarrow> \<not> truthy_val v | Raises e \<Rightarrow> e = NoSuchElementException)"
  by (cases ev) (auto simp: pending_def)










lemma late_wait:
  "until (presence_of_element_located late_page loc) 5 ui0 =
     (Inr (Element 7),
      \<lparr>clock = 2000,
       polled = [(0, Raises NoSuchElementException), (500, Raises NoSuchElementException),
                 (1000, Raises NoSuchElementException), (1500, Raises NoSuchElementException),
                 (2000, Value (Element 7))],
       issued = []\<rparr>)"
  by (simp add: until_def until_loop.simps presence_of_element_located_def late_page_def ui0_def
      POLL_FREQUENCY_def Let_def)





text \<open>
  C5. \<^verbatim>\<open>wait_for_result\<close> always ends. The evaluations it makes are the condition's
  results at the times it was called; every one before the last was false or the
  absorbed not-found error. When the last one is a true value, that value, the first
  true one, is returned; when the last one is false too, the deadline has passed and
  \<^verbatim>\<open>TimeoutException\<close> is raised; an exception of the condition other than not-found
  leaves the wait as it is.
\<close>

theorem wait_for_result_first_truthy:
  assumes "wait_for_result self condition timeout w = (r, w')"
  shows "\<exists>obs t ev. polled w' = polled w @ obs @ [(t, ev)] \<and>
           (\<forall>p \<in> set (obs @ [(t, ev)]). snd p = fst (condition (fst p)) \<and> clock w \<le> fst p) \<and>
           (\<forall>p \<in> set obs. pending (snd p)) \<and>
           (case ev of
              Value v \<Rightarrow>
                if truthy_val v then r = Inr v
                else r = Inl TimeoutException \<and> clock w + timeout * 1000 < clock w'
            | Raises e \<Rightarrow>
                if e = NoSuchElementException
                then r = Inl TimeoutException \<and> clock w + timeout * 1000 < clock w'
                else r = Inl e)"
proof -
  obtain obs t ev where tr:
    "polled w' = polled w @ obs @ [(t, ev)]"
    "\<forall>p \<in> set (obs @ [(t, ev)]). snd p = fst (condition (fst p)) \<and> clock w \<le> fst p \<and> fst p \<le> clock w'"
    "\<forall>p \<in> set obs. pending (snd p)"
    "case settle ev of
       Some x \<Rightarrow> r = x \<and> clock w' = t + int (snd (condition t))
     | None \<Rightarrow> r = Inl TimeoutException \<and> clock w + timeout * 1000 < clock w'"
    using until_loop_trace[OF assms[unfolded wait_for_result_def until_def]] by blast
  have "case ev of
          Value v \<Rightarrow>
            if truthy_val v then r = Inr v
            else r = Inl TimeoutException \<and> clock w + timeout * 1000 < clock w'
        | Raises e \<Rightarrow>
            if e = NoSuchElementException
            then r = Inl TimeoutException \<and> clock w + timeout * 1000 < clock w'
            else r = Inl e"
    using tr(4) by (cases ev) (auto split: if_splits)
  then show ?thesis using tr(1,2,3) by blast
qed

lemma becomes_true_run:
  "until becomes_true 5 ui0 =
     (Inr (Data (JStr ''ready'')),
      \<lparr>clock = 2000,
       polled = [(0, Value (Data (JArr []))), (500, Value (Data (JArr []))),
                 (1000, Value (Data (JArr []))), (1500, Value (Data (JArr []))),
                 (2000, Value (Data (JStr ''ready'')))],
       issued = []\<rparr>)"
  by (simp add: until_def until_loop.simps becomes_true_def ui0_def POLL_FREQUENCY_def Let_def)

lemma never_true_run:
  "until never_true 1 ui0 =
     (Inl TimeoutException,
      \<lparr>clock = 1500,
       polled = [(0, Value (Data JNull)), (500, Value (Data JNull)), (1000, Value (Data JNull))],
       issued = []\<rparr>)"
  by (simp add: until_def until_loop.simps never_true_def ui0_def POLL_FREQUENCY_def Let_def)

theorem wait_for_result_first_truthy_witness:
  "fst (wait_for_result page5 becomes_true 5 ui0) = Inr (Data (JStr ''ready'')) \<and>
   map fst (polled (snd (wait_for_result page5 becomes_true 5 ui0))) = [0, 500, 1000, 1500, 2000] \<and>
   fst (wait_for_result page5 never_true 1 ui0) = Inl TimeoutException \<and>
   clock (snd (wait_for_result page5 never_true 1 ui0)) = 1500"
  using wait_for_result_first_truthy[of page5 becomes_true 5 ui0
      "fst (wait_for_result page5 becomes_true 5 ui0)"
      "snd (wait_for_result page5 becomes_true 5 ui0)"]
    wait_for_result_first_truthy[of page5 never_true 1 ui0
      "fst (wait_for_result page5 never_true 1 ui0)"
      "snd (wait_for_result page5 never_true 1 ui0)"]
  by (simp add: wait_for_result_def becomes_true_run never_true_run)

text \<open>
  C4, as amended. \<^verbatim>\<open>is_element_present\<close> returns \<^verbatim>\<open>True\<close> when a poll finds the element,
  and \<^verbatim>\<open>False\<close> when the wait ends in \<^verbatim>\<open>TimeoutException\<close>: the deadline passed with the
  element never found, or the driver raised that exception itself. Any other exception
  of the driver is not caught and leaves the call.
\<close>

theorem is_element_present_cases:
  assumes "is_element_present br self loc timeout w = (r, w')"
  shows "\<exists>obs t. polled w' = polled w @ obs @ [(t, fst (presence_of_element_located br loc t))] \<and>
           clock w \<le> t \<and>
           (\<forall>p \<in> set obs. snd p = Raises NoSuchElementException \<and>
                           locate br (fst p) loc = Inl NoSuchElementException) \<and>
           (case locate br t loc of
              Inr i \<Rightarrow> r = Inr True
            | Inl e \<Rightarrow>
                if e = NoSuchElementException
                then r = Inr False \<and> clock w + timeout * 1000 < clock w'
                else if e = TimeoutException then r = Inr False
                else r = Inl e)"
proof -
  let ?m = "presence_of_element_located br loc"
  obtain res w1 where u: "until ?m timeout w = (res, w1)" by (cases "until ?m timeout w")
  have w1: "w' = w1"
    using assms u by (cases res) (auto simp: is_element_present_def split: if_splits)
  obtain obs t ev where tr:
    "polled w1 = polled w @ obs @ [(t, ev)]"
    "\<forall>p \<in> set (obs @ [(t, ev)]). snd p = fst (?m (fst p)) \<and> clock w \<le> fst p \<and> fst p \<le> clock w1"
    "\<forall>p \<in> set obs. pending (snd p)"
    "case settle ev of
       Some x \<Rightarrow> res = x \<and> clock w1 = t + int (snd (?m t))
     | None \<Rightarrow> res = Inl TimeoutException \<and> clock w + timeout * 1000 < clock w1"
    using until_loop_trace[OF u[unfolded until_def]] by blast
  have ev: "ev = fst (?m t)" "clock w \<le> t" using tr(2) by auto
  have pend: "snd p = Raises NoSuchElementException \<and> locate br (fst p) loc = Inl NoSuchElementException"
    if "p \<in> set obs" for p
  proof -
    have "pending (fst (?m (fst p)))" "snd p = fst (?m (fst p))" using tr(2,3) that by auto
    then show ?thesis
      by (auto simp: pending_def presence_of_element_located_def split: sum.splits if_splits)
  qed
  have res: "case locate br t loc of
              Inr i \<Rightarrow> r = Inr True
            | Inl e \<Rightarrow>
                if e = NoSuchElementException
                then r = Inr False \<and> clock w + timeout * 1000 < clock w'
                else if e = TimeoutException then r = Inr False
                else r = Inl e"
    using tr(4) ev(1) assms u w1
    by (auto simp: is_element_present_def presence_of_element_located_def
        split: sum.splits if_splits)
  show ?thesis
    using tr(1) ev pend res w1 by (intro exI[of _ obs] exI[of _ t]) auto
qed

lemma closed_wait:
  "until (presence_of_element_located closed_page loc) 5 ui0 =
     (Inl (OtherException ''NoSuchWindowException''),
      \<lparr>clock = 0, polled = [(0, Raises (OtherException ''NoSuchWindowException''))], issued = []\<rparr>)"
  by (simp add: until_def until_loop.simps presence_of_element_located_def closed_page_def ui0_def
      POLL_FREQUENCY_def Let_def)

lemma short_wait:
  "until (presence_of_element_located late_page loc) 1 ui0 =
     (Inl TimeoutException,
      \<lparr>clock = 1500,
       polled = [(0, Raises NoSuchElementException), (500, Raises NoSuchElementException),
                 (1000, Raises NoSuchElementException)],
       issued = []\<rparr>)"
  by (simp add: until_def until_loop.simps presence_of_element_located_def late_page_def ui0_def
      POLL_FREQUENCY_def Let_def)

theorem is_element_present_cases_witness:
  "fst (is_element_present late_page page5 submit 5 ui0) = Inr True \<and>
   fst (is_element_present late_page page5 submit 1 ui0) = Inr False \<and>
   fst (is_element_present closed_page page5 submit 5 ui0) =
     Inl (OtherException ''NoSuchWindowException'')"
  using is_element_present_cases[of late_page page5 submit 5 ui0
      "fst (is_element_present late_page page5 submit 5 ui0)"
      "snd (is_element_present late_page page5 submit 5 ui0)"]
    is_element_present_cases[of late_page page5 submit 1 ui0
      "fst (is_element_present late_page page5 submit 1 ui0)"
      "snd (is_element_present late_page page5 submit 1 ui0)"]
    is_element_present_cases[of closed_page page5 submit 5 ui0
      "fst (is_element_present closed_page page5 submit 5 ui0)"
      "snd (is_element_present closed_page page5 submit 5 ui0)"]
  by (simp add: is_element_present_def late_wait short_wait closed_wait)

text \<open>With the browser window closed, the lookup raises an error that is not a timeout,
  and \<^verbatim>\<open>is_element_present\<close> raises it too.\<close>

theorem closed_window_counterexample:
  "fst (is_element_present closed_page page5 submit 5 ui0) =
     Inl (OtherException ''NoSuchWindowException'')"
  by (simp add: is_element_present_def closed_wait)


end
